theory Spec2Isabelle
  imports Complex_Main "HOL-Library.Multiset"
begin

section \<open>InsightsMania: the data of \<^verbatim>\<open>app.py\<close>\<close>

text \<open>
  \<^verbatim>\<open>app.py\<close> is a Streamlit script around three collaborators: a generative language
  model, a SQLite file \<^verbatim>\<open>customer.db\<close> and the Streamlit chat surface. The script's own
  functions are \<^verbatim>\<open>get_sql_query\<close>, \<^verbatim>\<open>get_sql_results\<close>, \<^verbatim>\<open>generate_insights\<close> and \<^verbatim>\<open>main\<close>.
  They are embedded below as functions that pass a world explicitly; every call the
  script makes on a collaborator is appended, in program order, to the world's trace.

  Strings are byte lists; a character outside ASCII is written as its UTF-8 bytes.
\<close>

subsection \<open>Rows\<close>

text \<open>
  A row of \<^verbatim>\<open>List[Tuple]\<close> is a tuple of SQLite scalars. A Python float is kept as the number
  it denotes; no theorem below computes with it.
\<close>

datatype scalar = SNull | SInt int | SFloat real | SText string

type_synonym row = "scalar list"

subsection \<open>Session history\<close>

text \<open>The dictionaries \<^verbatim>\<open>{"role": ..., "content": ...}\<close> of \<^verbatim>\<open>st.session_state.messages\<close>.\<close>

record message =
  role :: string
  content :: string

subsection \<open>Calls on the collaborators\<close>

datatype effect =
    StSetPageConfig string string
  | StTitle string
  | StChatMessage string
  | StMarkdown string
  | StCode string string
  | StDataframe "row list"
  | StError string
  | StWarning string
  | StSuccess string
  | StChatInput string
  | GenerateContent "string list"
  | SqlConnect string
  | SqlCursor
  | SqlExecute string
  | SqlClose

datatype conn_state = Open | Closed

text \<open>
  The world of one Streamlit session: \<open>messages\<close> is \<^verbatim>\<open>st.session_state.messages\<close>
  (\<open>None\<close> while the key is absent), \<open>datastore\<close> the content of \<^verbatim>\<open>customer.db\<close>,
  \<open>connections\<close> the state of every connection opened so far (a connection's handle is
  its index), \<open>trace\<close> the calls made so far.
\<close>

record 'db world =
  messages :: "message list option"
  datastore :: 'db
  connections :: "conn_state list"
  trace :: "effect list"

text \<open>
  The collaborators are parameters. \<open>generate_content\<close> is
  \<^verbatim>\<open>model.generate_content(parts).text\<close>: it is given the number of earlier calls, so that it
  may answer the same prompt differently, and returns \<open>Inl\<close> the message of the exception it
  raises or \<open>Inr\<close> the generated text. \<open>sql_execute\<close> is \<^verbatim>\<open>cursor.execute(query)\<close> with
  the rows the cursor then yields. It is given the number of earlier executions too, since
  the driver may answer one statement on one table differently from call to call
  (\<^verbatim>\<open>SELECT random()\<close>). It returns \<open>Inl\<close> the driver's error message, or \<open>Inr\<close> of
  three things: the rows in cursor order; the table as the open connection then sees it,
  with the changes of a transaction that the driver has begun and nobody has committed; and
  the content of \<^verbatim>\<open>customer.db\<close> itself, which holds committed changes only.
  \<open>str_rows\<close> is Python's \<^verbatim>\<open>str\<close> of the row list, which the f-string of
  \<^verbatim>\<open>generate_insights\<close> applies.
  \<^verbatim>\<open>sqlite3.connect('customer.db')\<close> creates a missing file and is taken to succeed.
\<close>

record 'db env =
  generate_content :: "nat \<Rightarrow> string list \<Rightarrow> string + string"
  sql_execute :: "nat \<Rightarrow> 'db \<Rightarrow> string \<Rightarrow> string + (row list \<times> 'db \<times> 'db)"
  str_rows :: "row list \<Rightarrow> string"

datatype exn =
    GenerationError string
  | DatabaseError string
  | UnboundLocalError string
  | AttributeError string

subsection \<open>Reading a trace\<close>

definition emit :: "effect \<Rightarrow> 'db world \<Rightarrow> 'db world" where
  "emit e w = w\<lparr>trace := trace w @ [e]\<rparr>"

fun prompt_of :: "effect \<Rightarrow> string list list" where
  "prompt_of (GenerateContent parts) = [parts]"
| "prompt_of _ = []"

definition prompts_sent :: "effect list \<Rightarrow> string list list" where
  "prompts_sent es = concat (map prompt_of es)"

fun statement_of :: "effect \<Rightarrow> string list" where
  "statement_of (SqlExecute q) = [q]"
| "statement_of _ = []"

definition executed :: "effect list \<Rightarrow> string list" where
  "executed es = concat (map statement_of es)"

fun is_driver_call :: "effect \<Rightarrow> bool" where
  "is_driver_call (SqlConnect _) = True"
| "is_driver_call SqlCursor = True"
| "is_driver_call (SqlExecute _) = True"
| "is_driver_call SqlClose = True"
| "is_driver_call _ = False"

definition driver_calls :: "effect list \<Rightarrow> effect list" where
  "driver_calls es = filter is_driver_call es"

fun is_status :: "effect \<Rightarrow> bool" where
  "is_status (StError _) = True"
| "is_status (StWarning _) = True"
| "is_status (StSuccess _) = True"
| "is_status _ = False"

definition status_messages :: "effect list \<Rightarrow> effect list" where
  "status_messages es = filter is_status es"

text \<open>The calls made between two worlds of one run.\<close>

definition effects_since :: "'db world \<Rightarrow> 'db world \<Rightarrow> effect list" where
  "effects_since w w' = drop (length (trace w)) (trace w')"

section \<open>The functions of \<^verbatim>\<open>app.py\<close>\<close>

subsection \<open>\<^verbatim>\<open>get_sql_query\<close>\<close>

definition sql_prompt :: "string \<Rightarrow> string" where
  \<open>sql_prompt query = concat
    [''\<newline>'',
     ''    You are a highly skilled Marketing Analytics Assistant.\<newline>'',
     ''\<newline>'',
     ''    Your job is to translate natural language business questions from marketing analysts into optimized SQL queries that retrieve actionable insights from a SQLite database.\<newline>'',
     ''\<newline>'',
     ''    '',
     [CHR 0xF0, CHR 0x9F, CHR 0x93, CHR 0x8A],
     '' The insights may involve:\<newline>'',
     ''    - Retrieving existing metrics like ROAS, CTR, CPC, CPA\<newline>'',
     ''    - Grouping data by platform, campaign, hour, or ad type\<newline>'',
     ''    - Filtering by date, platform, segment, or SKU\<newline>'',
     ''    - Generating derived metrics using basic formulas, such as:\<newline>'',
     ''        - ROAS = revenue / spend\<newline>'',
     ''        - CTR = (clicks / impressions) * 100\<newline>'',
     ''        - CPC = spend / clicks\<newline>'',
     ''        - CPA = spend / conversions\<newline>'',
     ''        - CPM = (spend / impressions) * 1000\<newline>'',
     ''\<newline>'',
     ''    You must ONLY use fields and datatypes from the schema below and derive metrics using them. NEVER assume the existence of any field not listed.\<newline>'',
     ''\<newline>'',
     ''    '',
     [CHR 0xF0, CHR 0x9F, CHR 0x97, CHR 0x82],
     '' Table schema:\<newline>'',
     ''\<newline>'',
     ''    CREATE TABLE customer (\<newline>'',
     ''        customer_id VARCHAR(20),\<newline>'',
     ''        platform VARCHAR(20),\<newline>'',
     ''        segment VARCHAR(20),\<newline>'',
     ''        SKU VARCHAR(50),\<newline>'',
     ''        hour INT,\<newline>'',
     ''        date DATE,\<newline>'',
     ''        ROAS FLOAT,\<newline>'',
     ''        CTR FLOAT,\<newline>'',
     ''        CPC FLOAT,\<newline>'',
     ''        CPM FLOAT,\<newline>'',
     ''        CPA FLOAT,\<newline>'',
     ''        impressions INT,\<newline>'',
     ''        clicks FLOAT,\<newline>'',
     ''        conversions FLOAT,\<newline>'',
     ''        spend FLOAT,\<newline>'',
     ''        revenue FLOAT,\<newline>'',
     ''        ad_name VARCHAR(100),\<newline>'',
     ''        ad_type VARCHAR(20),\<newline>'',
     ''        campaign_id VARCHAR(50)\<newline>'',
     ''    );\<newline>'',
     ''\<newline>'',
     ''    '',
     [CHR 0xF0, CHR 0x9F, CHR 0x93, CHR 0x8C],
     '' Guidelines:\<newline>'',
     ''    - Use **only** fields in the schema.\<newline>'',
     ''    - Return **only** a valid SQLite SQL query in the plain text format without any ``` or quotations.\<newline>'',
     ''    - If an insight can be computed from existing fields (e.g., custom ROI or cost efficiency), derive it correctly.\<newline>'',
     ''    - NEVER hallucinate table names or column names.\<newline>'',
     ''    - String and date values must be wrapped in single quotes.\<newline>'',
     ''    - Use `AS` to name computed columns clearly (e.g., `spend / conversions AS CPA`).\<newline>'',
     ''    - NEVER return anything other than the SQL query.\<newline>'',
     ''    - More importantly, if the query is invalid, return "INVALID QUERY".\<newline>'',
     ''    - If the query is valid but does not return any results, return "NO RESULTS".\<newline>'',
     ''    - If the query is valid and returns results, return the SQL query.\<newline>'',
     ''    '',
     [CHR 0xF0, CHR 0x9F, CHR 0x97, CHR 0xA3],
     '' Natural Language Request:\<newline>'',
     ''    "'',
     query,
     ''"\<newline>'',
     ''\<newline>'',
     [CHR 0xF0, CHR 0x9F, CHR 0x92, CHR 0xA1],
     ''  SQL Insight Output (only the SQL query):\<newline>'',
     ''    '']\<close>

definition get_sql_query :: "'db env \<Rightarrow> string \<Rightarrow> 'db world \<Rightarrow> (exn + string) \<times> 'db world" where
  "get_sql_query E query w =
     (let prompt = sql_prompt query;
          n = length (prompts_sent (trace w));
          w1 = emit (GenerateContent [prompt, query]) w
      in case generate_content E n [prompt, query] of
           Inl m \<Rightarrow> (Inl (GenerationError m), w1)
         | Inr text \<Rightarrow> (Inr text, w1))"

subsection \<open>\<^verbatim>\<open>get_sql_results\<close>\<close>

definition sqlite3_connect :: "string \<Rightarrow> 'db world \<Rightarrow> nat \<times> 'db world" where
  "sqlite3_connect path w =
     (length (connections w),
      emit (SqlConnect path) (w\<lparr>connections := connections w @ [Open]\<rparr>))"

definition conn_close :: "nat \<Rightarrow> 'db world \<Rightarrow> 'db world" where
  "conn_close conn w = emit SqlClose (w\<lparr>connections := (connections w)[conn := Closed]\<rparr>)"

text \<open>The loop \<^verbatim>\<open>for row in results: rows.append(row)\<close>, started with \<^verbatim>\<open>rows = []\<close>.\<close>

fun append_rows :: "row list \<Rightarrow> row list \<Rightarrow> row list" where
  "append_rows rows [] = rows"
| "append_rows rows (row # results) = append_rows (rows @ [row]) results"

text \<open>
  When \<^verbatim>\<open>cursor.execute\<close> raises, the exception leaves the function at that line: the
  source has no \<^verbatim>\<open>try\<close>, \<^verbatim>\<open>finally\<close> or \<^verbatim>\<open>with\<close>, so \<^verbatim>\<open>conn.close()\<close> is not reached.

  The function never calls \<^verbatim>\<open>conn.commit()\<close>. What the connection holds uncommitted
  (\<open>pending\<close>) is therefore rolled back when the connection is closed, and the datastore
  after the call is the committed content (\<open>durable\<close>) alone.
\<close>

definition get_sql_results :: "'db env \<Rightarrow> string \<Rightarrow> 'db world \<Rightarrow> (exn + row list) \<times> 'db world" where
  "get_sql_results E query w =
     (case sqlite3_connect ''customer.db'' w of
        (conn, w1) \<Rightarrow>
          (let w2 = emit SqlCursor w1;
               n = length (executed (trace w2));
               w3 = emit (SqlExecute query) w2
           in case sql_execute E n (datastore w3) query of
                Inl m \<Rightarrow> (Inl (DatabaseError m), w3)
              | Inr (results, pending, durable) \<Rightarrow>
                  (let rows = append_rows [] results;
                       w4 = conn_close conn (w3\<lparr>datastore := durable\<rparr>)
                   in (Inr rows, w4))))"

subsection \<open>\<^verbatim>\<open>generate_insights\<close>\<close>

definition insight_prompt :: "string \<Rightarrow> string \<Rightarrow> string \<Rightarrow> string" where
  \<open>insight_prompt user_query sql_query results = concat
    [''\<newline>'',
     ''    You are a senior marketing analyst assistant.\<newline>'',
     ''\<newline>'',
     ''    Your role is to interpret the output of SQL queries run on advertising data. The result represents marketing KPIs (such as ROAS, CTR, CPC, CPA, spend, revenue, conversions, impressions) from the `customer` table of a SQLite database.\<newline>'',
     ''\<newline>'',
     ''    Your task:\<newline>'',
     ''    - Analyze the tuple of results given to you.\<newline>'',
     ''    - Provide clear, concise, and actionable **marketing insights** in plain English.\<newline>'',
     ''    - Focus on what the numbers *mean* '',
     [CHR 0xE2, CHR 0x80, CHR 0x94],
     '' e.g., which platform performed best, any efficiency issues, anomalies, or optimization opportunities.\<newline>'',
     ''\<newline>'',
     ''    DO:\<newline>'',
     ''    - Highlight top-performing platforms, campaigns, or ad types.\<newline>'',
     ''    - Mention underperformers or efficiency concerns (e.g., high CPA or low ROAS).\<newline>'',
     ''    - Suggest what action a marketer might consider next (e.g., scale, pause, test creatives).\<newline>'',
     ''    - Mention derived metrics like conversion rate, ROAS improvements, etc., if possible.\<newline>'',
     ''\<newline>'',
     ''    DON'',
     [CHR 0xE2, CHR 0x80, CHR 0x99],
     ''T:\<newline>'',
     ''    - Repeat raw numbers unless it's meaningful.\<newline>'',
     ''    - Include SQL or technical explanations.\<newline>'',
     ''    - Hallucinate metrics not present in the result.\<newline>'',
     ''\<newline>'',
     ''    Here is the user's query based on which the below SQL output has been generated:\<newline>'',
     ''    '',
     user_query,
     ''\<newline>'',
     ''    and the sql query prepared by the LLM by taking the semantic context of the user's query:\<newline>'',
     ''    '',
     sql_query,
     ''\<newline>'',
     ''    Here is the result of the SQL query:\<newline>'',
     ''    '',
     results,
     ''\<newline>'',
     ''    Please write your marketing insight based on this result:\<newline>'',
     ''    '']\<close>

definition generate_insights ::
  "'db env \<Rightarrow> string \<Rightarrow> string \<Rightarrow> row list \<Rightarrow> 'db world \<Rightarrow> (exn + string) \<times> 'db world" where
  "generate_insights E user_query sql_query results w =
     (let prompt = insight_prompt user_query sql_query (str_rows E results);
          n = length (prompts_sent (trace w));
          w1 = emit (GenerateContent [prompt]) w
      in case generate_content E n [prompt] of
           Inl m \<Rightarrow> (Inl (GenerationError m), w1)
         | Inr text \<Rightarrow> (Inr text, w1))"

subsection \<open>\<^verbatim>\<open>main\<close>\<close>

text \<open>The loop that redraws the history, one chat container per stored message.\<close>

fun render_messages :: "message list \<Rightarrow> 'db world \<Rightarrow> 'db world" where
  "render_messages [] w = w"
| "render_messages (m # ms) w =
     render_messages ms (emit (StMarkdown (content m)) (emit (StChatMessage (role m)) w))"

text \<open>\<^verbatim>\<open>st.session_state.messages.append(m)\<close>; reading the attribute raises while the key is absent.\<close>

definition append_message :: "message \<Rightarrow> 'db world \<Rightarrow> exn + 'db world" where
  "append_message m w =
     (case messages w of
        None \<Rightarrow> Inl (AttributeError ''messages'')
      | Some ms \<Rightarrow> Inr (w\<lparr>messages := Some (ms @ [m])\<rparr>))"

definition page_title :: string where
  "page_title = [CHR 0xF0, CHR 0x9F, CHR 0x8E, CHR 0xAF] @ '' InsightsMania '' @ [CHR 0xE2, CHR 0x80, CHR 0x93] @ '' Marketing Insights Generator''"

definition insight_heading :: string where
  "insight_heading = [CHR 0xF0, CHR 0x9F, CHR 0x92, CHR 0xA1] @ ''**Insight:**''"

text \<open>
  Lines 131 to 141: page set-up, creation of the history, redraw, the input box. After
  line 135 the key is present, so the redraw loop always has a list to read.
\<close>

definition main_begin :: "'db world \<Rightarrow> 'db world" where
  "main_begin w =
     (let w1 = emit (StSetPageConfig ''InsightsMania'' ''centered'') w;
          w2 = emit (StTitle page_title) w1;
          w3 = (if messages w2 = None then w2\<lparr>messages := Some []\<rparr> else w2);
          w4 = (case messages w3 of
                  None \<Rightarrow> w3
                | Some ms \<Rightarrow> render_messages ms w3)
      in emit (StChatInput ''Ask your marketing question here...'') w4)"

text \<open>
  Line 171. \<^verbatim>\<open>insight_response\<close> is a local name bound only on line 166; it is \<open>None\<close>
  while unbound. The conditional expression evaluates \<^verbatim>\<open>results\<close> first and only then
  the arm it selects.
\<close>

definition main_store ::
  "row list \<Rightarrow> string option \<Rightarrow> 'db world \<Rightarrow> (exn + unit) \<times> 'db world" where
  "main_store results insight_response w =
     (case (if results \<noteq> []
            then (case insight_response of
                    None \<Rightarrow> Inl (UnboundLocalError ''insight_response'')
                  | Some text \<Rightarrow> Inr text)
            else Inr ''No data to generate insights.'') of
        Inl e \<Rightarrow> (Inl e, w)
      | Inr c \<Rightarrow>
          (case append_message \<lparr>role = ''assistant'', content = c\<rparr> w of
             Inl e \<Rightarrow> (Inl e, w)
           | Inr w1 \<Rightarrow> (Inr (), w1)))"

text \<open>Lines 160 to 171: the \<^verbatim>\<open>else\<close> branch after the two sentinel tests.\<close>

definition main_execute ::
  "'db env \<Rightarrow> string \<Rightarrow> string \<Rightarrow> 'db world \<Rightarrow> (exn + unit) \<times> 'db world" where
  "main_execute E user_input sql_query w =
     (case get_sql_results E sql_query w of
        (Inl e, w1) \<Rightarrow> (Inl e, w1)
      | (Inr results, w1) \<Rightarrow>
          (if results = []
           then main_store results None (emit (StWarning ''No data returned for this query.'') w1)
           else
             (let w2 = emit (StMarkdown ''**SQL Output:**'') w1;
                  w3 = emit (StDataframe results) w2
              in case generate_insights E user_input sql_query results w3 of
                   (Inl e, w4) \<Rightarrow> (Inl e, w4)
                 | (Inr insight_response, w4) \<Rightarrow>
                     (let w5 = emit (StMarkdown insight_heading) w4;
                          w6 = emit (StSuccess insight_response) w5
                      in main_store results (Some insight_response) w6))))"

text \<open>Lines 143 to 171: the body of \<^verbatim>\<open>if user_input:\<close>.\<close>

definition main_turn :: "'db env \<Rightarrow> string \<Rightarrow> 'db world \<Rightarrow> (exn + unit) \<times> 'db world" where
  "main_turn E user_input w =
     (case append_message \<lparr>role = ''user'', content = user_input\<rparr> w of
        Inl e \<Rightarrow> (Inl e, w)
      | Inr w1 \<Rightarrow>
          (let w2 = emit (StChatMessage ''user'') w1;
               w3 = emit (StMarkdown user_input) w2;
               w4 = emit (StChatMessage ''assistant'') w3
           in case get_sql_query E user_input w4 of
                (Inl e, w5) \<Rightarrow> (Inl e, w5)
              | (Inr sql_query, w5) \<Rightarrow>
                  (if sql_query = ''INVALID QUERY''
                   then (Inr (), emit (StError ''Invalid SQL query. Please try again.'') w5)
                   else if sql_query = ''NO RESULTS''
                   then (Inr (), emit (StWarning ''No results found for this query.'') w5)
                   else
                     (let w6 = emit (StMarkdown ''**Generated SQL Query:**'') w5;
                          w7 = emit (StCode sql_query ''sql'') w6
                      in main_execute E user_input sql_query w7))))"

text \<open>
  One run of the script. \<open>user_input\<close> is what \<^verbatim>\<open>st.chat_input\<close> returns: \<open>None\<close> when
  nothing was submitted; \<^verbatim>\<open>if user_input:\<close> also skips the empty string.
\<close>

definition main :: "'db env \<Rightarrow> string option \<Rightarrow> 'db world \<Rightarrow> (exn + unit) \<times> 'db world" where
  "main E user_input w =
     (let w1 = main_begin w
      in case user_input of
           None \<Rightarrow> (Inr (), w1)
         | Some text \<Rightarrow> (if text = [] then (Inr (), w1) else main_turn E text w1))"

section \<open>Auxiliary definitions\<close>

subsection \<open>What a run adds to the trace\<close>

fun frame_of :: "effect \<Rightarrow> row list list" where
  "frame_of (StDataframe rows) = [rows]"
| "frame_of _ = []"

definition frames_shown :: "effect list \<Rightarrow> row list list" where
  "frames_shown es = concat (map frame_of es)"

text \<open>The history that \<^verbatim>\<open>main\<close> works with once line 135 has created a missing key.\<close>

definition history_of :: "'db world \<Rightarrow> message list" where
  "history_of w = (case messages w of None \<Rightarrow> [] | Some ms \<Rightarrow> ms)"

text \<open>The calls of the redraw loop, one container and one markdown call per message.\<close>

fun redraw :: "message list \<Rightarrow> effect list" where
  "redraw [] = []"
| "redraw (m # ms) = StChatMessage (role m) # StMarkdown (content m) # redraw ms"

definition begin_effects :: "message list \<Rightarrow> effect list" where
  "begin_effects ms =
     [StSetPageConfig ''InsightsMania'' ''centered'', StTitle page_title] @ redraw ms @
     [StChatInput ''Ask your marketing question here...'']"

definition turn_head :: "string \<Rightarrow> effect list" where
  "turn_head user_input =
     [StChatMessage ''user'', StMarkdown user_input, StChatMessage ''assistant'',
      GenerateContent [sql_prompt user_input, user_input]]"

definition query_shown :: "string \<Rightarrow> effect list" where
  "query_shown sql_query = [StMarkdown ''**Generated SQL Query:**'', StCode sql_query ''sql'']"

subsection \<open>A concrete environment\<close>

text \<open>
  A table of two rows, a generator that answers six fixed questions (and anything else with
  a text one character longer than a sentinel), an engine that knows five statements. Its
  \<^verbatim>\<open>DELETE\<close> empties the table inside the connection's transaction only, and its
  \<^verbatim>\<open>SELECT random()\<close> answers with a number that depends on the call.
\<close>

definition demo_rows :: "row list" where
  "demo_rows = [[SText ''Meta'', SFloat 4.2], [SText ''Google'', SFloat 3.1]]"

definition demo_generate :: "nat \<Rightarrow> string list \<Rightarrow> string + string" where
  "demo_generate n parts =
     (case parts of
        [prompt, question] \<Rightarrow>
          (if question = ''What is the capital of France?'' then Inr ''INVALID QUERY''
           else if question = ''Which rows will be logged tomorrow?'' then Inr ''NO RESULTS''
           else if question = ''Which platform had the highest ROAS?''
             then Inr ''SELECT platform, ROAS FROM customer ORDER BY ROAS DESC''
           else if question = ''What happened at a negative hour?''
             then Inr ''SELECT * FROM customer WHERE hour < 0''
           else if question = ''What is the average cost?''
             then Inr ''SELECT AVG(cost) FROM customer''
           else if question = ''Forget every customer'' then Inr ''DELETE FROM customer''
           else Inr ''INVALID QUERY.'')
      | [prompt] \<Rightarrow> Inr ''Meta returns the most per unit of spend; consider scaling it.''
      | _ \<Rightarrow> Inl ''400 Bad Request'')"

definition demo_execute ::
  "nat \<Rightarrow> row list \<Rightarrow> string \<Rightarrow> string + (row list \<times> row list \<times> row list)" where
  "demo_execute n table q =
     (if q = ''SELECT platform, ROAS FROM customer ORDER BY ROAS DESC''
        then Inr (table, table, table)
      else if q = ''SELECT * FROM customer WHERE hour < 0'' then Inr ([], table, table)
      else if q = ''DELETE FROM customer'' then Inr ([], [], table)
      else if q = ''SELECT random()''
        then Inr ([[SInt (1103515245 * int n + 12345)]], table, table)
      else if q = ''SELECT AVG(cost) FROM customer'' then Inl ''no such column: cost''
      else Inl ''syntax error'')"

definition demo_env :: "(row list) env" where
  "demo_env = \<lparr>generate_content = demo_generate, sql_execute = demo_execute,
                 str_rows = (\<lambda>rows. if rows = [] then ''[]'' else ''[('Meta', 4.2), ('Google', 3.1)]'')\<rparr>"

definition demo_world :: "(row list) world" where
  "demo_world = \<lparr>messages = None, datastore = demo_rows, connections = [], trace = []\<rparr>"

section \<open>Basic facts\<close>

text \<open>The loop of \<^verbatim>\<open>get_sql_results\<close> appends the cursor's rows in order.\<close>

lemma append_rows_eq: "append_rows rows results = rows @ results"
  by (induction results arbitrary: rows) simp_all

lemmas main_defs =
  main_def main_turn_def main_execute_def main_store_def get_sql_query_def
  get_sql_results_def generate_insights_def append_message_def sqlite3_connect_def
  conn_close_def Let_def append_rows_eq turn_head_def query_shown_def

lemmas demo_defs = demo_env_def demo_world_def demo_generate_def demo_execute_def demo_rows_def

lemma trace_emit [simp]: "trace (emit e w) = trace w @ [e]"
  and messages_emit [simp]: "messages (emit e w) = messages w"
  and datastore_emit [simp]: "datastore (emit e w) = datastore w"
  and connections_emit [simp]: "connections (emit e w) = connections w"
  by (simp_all add: emit_def)

lemma prompts_sent_simps [simp]:
  "prompts_sent [] = []"
  "prompts_sent (e # es) = prompt_of e @ prompts_sent es"
  "prompts_sent (es @ fs) = prompts_sent es @ prompts_sent fs"
  by (simp_all add: prompts_sent_def)

lemma executed_simps [simp]:
  "executed [] = []"
  "executed (e # es) = statement_of e @ executed es"
  "executed (es @ fs) = executed es @ executed fs"
  by (simp_all add: executed_def)

lemma driver_calls_simps [simp]:
  "driver_calls [] = []"
  "driver_calls (e # es) = (if is_driver_call e then e # driver_calls es else driver_calls es)"
  "driver_calls (es @ fs) = driver_calls es @ driver_calls fs"
  by (simp_all add: driver_calls_def)

lemma status_messages_simps [simp]:
  "status_messages [] = []"
  "status_messages (e # es) = (if is_status e then e # status_messages es else status_messages es)"
  "status_messages (es @ fs) = status_messages es @ status_messages fs"
  by (simp_all add: status_messages_def)

lemma frames_shown_simps [simp]:
  "frames_shown [] = []"
  "frames_shown (e # es) = frame_of e @ frames_shown es"
  "frames_shown (es @ fs) = frames_shown es @ frames_shown fs"
  by (simp_all add: frames_shown_def)

lemma render_messages_fields [simp]:
  "messages (render_messages ms w) = messages w"
  "datastore (render_messages ms w) = datastore w"
  "connections (render_messages ms w) = connections w"
  by (induction ms arbitrary: w) simp_all

lemma trace_render_messages [simp]: "trace (render_messages ms w) = trace w @ redraw ms"
  by (induction ms arbitrary: w) simp_all

lemma redraw_silent [simp]:
  "prompts_sent (redraw ms) = []" "executed (redraw ms) = []"
  "driver_calls (redraw ms) = []" "status_messages (redraw ms) = []"
  "frames_shown (redraw ms) = []"
  by (induction ms) simp_all

lemma main_begin_fields [simp]:
  "messages (main_begin w) = Some (history_of w)"
  "datastore (main_begin w) = datastore w"
  "connections (main_begin w) = connections w"
  "trace (main_begin w) = trace w @ begin_effects (history_of w)"
  by (cases "messages w"; simp add: main_begin_def history_of_def begin_effects_def Let_def)+

lemma begin_effects_silent [simp]:
  "prompts_sent (begin_effects ms) = []" "executed (begin_effects ms) = []"
  "driver_calls (begin_effects ms) = []" "status_messages (begin_effects ms) = []"
  "frames_shown (begin_effects ms) = []"
  by (simp_all add: begin_effects_def)

subsection \<open>The two ways out of \<^verbatim>\<open>get_sql_results\<close>\<close>

lemma get_sql_results_raise:
  assumes "sql_execute E (length (executed (trace w))) (datastore w) q = Inl m"
  shows "fst (get_sql_results E q w) = Inl (DatabaseError m)"
    and "trace (snd (get_sql_results E q w)) =
           trace w @ [SqlConnect ''customer.db'', SqlCursor, SqlExecute q]"
    and "connections (snd (get_sql_results E q w)) = connections w @ [Open]"
    and "datastore (snd (get_sql_results E q w)) = datastore w"
    and "messages (snd (get_sql_results E q w)) = messages w"
  using assms by (simp_all add: main_defs)

lemma get_sql_results_return:
  assumes "sql_execute E (length (executed (trace w))) (datastore w) q = Inr (results, p, d)"
  shows "fst (get_sql_results E q w) = Inr results"
    and "trace (snd (get_sql_results E q w)) =
           trace w @ [SqlConnect ''customer.db'', SqlCursor, SqlExecute q, SqlClose]"
    and "connections (snd (get_sql_results E q w)) = connections w @ [Closed]"
    and "datastore (snd (get_sql_results E q w)) = d"
    and "messages (snd (get_sql_results E q w)) = messages w"
  using assms by (simp_all add: main_defs)

subsection \<open>The seven ways through a run of \<^verbatim>\<open>main\<close>\<close>

lemma main_generator_raises:
  assumes "u \<noteq> []"
    and "generate_content E (length (prompts_sent (trace w))) [sql_prompt u, u] = Inl m"
  shows "fst (main E (Some u) w) = Inl (GenerationError m)"
    and "trace (snd (main E (Some u) w)) = trace w @ begin_effects (history_of w) @ turn_head u"
    and "messages (snd (main E (Some u) w)) = Some (history_of w @ [\<lparr>role = ''user'', content = u\<rparr>])"
    and "datastore (snd (main E (Some u) w)) = datastore w"
    and "connections (snd (main E (Some u) w)) = connections w"
  using assms by (simp_all add: main_defs)

lemma main_invalid:
  assumes "u \<noteq> []"
    and "generate_content E (length (prompts_sent (trace w))) [sql_prompt u, u] = Inr ''INVALID QUERY''"
  shows "fst (main E (Some u) w) = Inr ()"
    and "trace (snd (main E (Some u) w)) =
           trace w @ begin_effects (history_of w) @ turn_head u @
           [StError ''Invalid SQL query. Please try again.'']"
    and "messages (snd (main E (Some u) w)) = Some (history_of w @ [\<lparr>role = ''user'', content = u\<rparr>])"
    and "datastore (snd (main E (Some u) w)) = datastore w"
    and "connections (snd (main E (Some u) w)) = connections w"
  using assms by (simp_all add: main_defs)

lemma main_no_results:
  assumes "u \<noteq> []"
    and "generate_content E (length (prompts_sent (trace w))) [sql_prompt u, u] = Inr ''NO RESULTS''"
  shows "fst (main E (Some u) w) = Inr ()"
    and "trace (snd (main E (Some u) w)) =
           trace w @ begin_effects (history_of w) @ turn_head u @
           [StWarning ''No results found for this query.'']"
    and "messages (snd (main E (Some u) w)) = Some (history_of w @ [\<lparr>role = ''user'', content = u\<rparr>])"
    and "datastore (snd (main E (Some u) w)) = datastore w"
    and "connections (snd (main E (Some u) w)) = connections w"
  using assms by (simp_all add: main_defs)

lemma main_executor_raises:
  assumes "u \<noteq> []"
    and "generate_content E (length (prompts_sent (trace w))) [sql_prompt u, u] = Inr s"
    and "s \<noteq> ''INVALID QUERY''" and "s \<noteq> ''NO RESULTS''"
    and "sql_execute E (length (executed (trace w))) (datastore w) s = Inl m"
  shows "fst (main E (Some u) w) = Inl (DatabaseError m)"
    and "trace (snd (main E (Some u) w)) =
           trace w @ begin_effects (history_of w) @ turn_head u @ query_shown s @
           [SqlConnect ''customer.db'', SqlCursor, SqlExecute s]"
    and "messages (snd (main E (Some u) w)) = Some (history_of w @ [\<lparr>role = ''user'', content = u\<rparr>])"
    and "datastore (snd (main E (Some u) w)) = datastore w"
    and "connections (snd (main E (Some u) w)) = connections w @ [Open]"
  using assms by (simp_all add: main_defs)

lemma main_empty_results:
  assumes "u \<noteq> []"
    and "generate_content E (length (prompts_sent (trace w))) [sql_prompt u, u] = Inr s"
    and "s \<noteq> ''INVALID QUERY''" and "s \<noteq> ''NO RESULTS''"
    and "sql_execute E (length (executed (trace w))) (datastore w) s = Inr ([], p, d)"
  shows "fst (main E (Some u) w) = Inr ()"
    and "trace (snd (main E (Some u) w)) =
           trace w @ begin_effects (history_of w) @ turn_head u @ query_shown s @
           [SqlConnect ''customer.db'', SqlCursor, SqlExecute s, SqlClose,
            StWarning ''No data returned for this query.'']"
    and "messages (snd (main E (Some u) w)) =
           Some (history_of w @ [\<lparr>role = ''user'', content = u\<rparr>,
             \<lparr>role = ''assistant'', content = ''No data to generate insights.''\<rparr>])"
    and "datastore (snd (main E (Some u) w)) = d"
    and "connections (snd (main E (Some u) w)) = connections w @ [Closed]"
  using assms by (simp_all add: main_defs)

lemma main_insight_raises:
  assumes "u \<noteq> []"
    and "generate_content E (length (prompts_sent (trace w))) [sql_prompt u, u] = Inr s"
    and "s \<noteq> ''INVALID QUERY''" and "s \<noteq> ''NO RESULTS''"
    and "sql_execute E (length (executed (trace w))) (datastore w) s = Inr (rows, p, d)" and "rows \<noteq> []"
    and "generate_content E (Suc (length (prompts_sent (trace w))))
           [insight_prompt u s (str_rows E rows)] = Inl m"
  shows "fst (main E (Some u) w) = Inl (GenerationError m)"
    and "trace (snd (main E (Some u) w)) =
           trace w @ begin_effects (history_of w) @ turn_head u @ query_shown s @
           [SqlConnect ''customer.db'', SqlCursor, SqlExecute s, SqlClose,
            StMarkdown ''**SQL Output:**'', StDataframe rows,
            GenerateContent [insight_prompt u s (str_rows E rows)]]"
    and "messages (snd (main E (Some u) w)) = Some (history_of w @ [\<lparr>role = ''user'', content = u\<rparr>])"
    and "datastore (snd (main E (Some u) w)) = d"
    and "connections (snd (main E (Some u) w)) = connections w @ [Closed]"
  using assms by (simp_all add: main_defs)

lemma main_insight_ready:
  assumes "u \<noteq> []"
    and "generate_content E (length (prompts_sent (trace w))) [sql_prompt u, u] = Inr s"
    and "s \<noteq> ''INVALID QUERY''" and "s \<noteq> ''NO RESULTS''"
    and "sql_execute E (length (executed (trace w))) (datastore w) s = Inr (rows, p, d)" and "rows \<noteq> []"
    and "generate_content E (Suc (length (prompts_sent (trace w))))
           [insight_prompt u s (str_rows E rows)] = Inr text"
  shows "fst (main E (Some u) w) = Inr ()"
    and "trace (snd (main E (Some u) w)) =
           trace w @ begin_effects (history_of w) @ turn_head u @ query_shown s @
           [SqlConnect ''customer.db'', SqlCursor, SqlExecute s, SqlClose,
            StMarkdown ''**SQL Output:**'', StDataframe rows,
            GenerateContent [insight_prompt u s (str_rows E rows)],
            StMarkdown insight_heading, StSuccess text]"
    and "messages (snd (main E (Some u) w)) =
           Some (history_of w @ [\<lparr>role = ''user'', content = u\<rparr>,
             \<lparr>role = ''assistant'', content = text\<rparr>])"
    and "datastore (snd (main E (Some u) w)) = d"
    and "connections (snd (main E (Some u) w)) = connections w @ [Closed]"
  using assms by (simp_all add: main_defs)

lemma turn_scenarios [case_names generator_raises invalid no_results executor_raises
    empty_results insight_raises insight_ready]:
  obtains m where
      "generate_content E (length (prompts_sent (trace w))) [sql_prompt u, u] = Inl m"
  | "generate_content E (length (prompts_sent (trace w))) [sql_prompt u, u] = Inr ''INVALID QUERY''"
  | "generate_content E (length (prompts_sent (trace w))) [sql_prompt u, u] = Inr ''NO RESULTS''"
  | s m where
      "generate_content E (length (prompts_sent (trace w))) [sql_prompt u, u] = Inr s"
      "s \<noteq> ''INVALID QUERY''" "s \<noteq> ''NO RESULTS''"
      "sql_execute E (length (executed (trace w))) (datastore w) s = Inl m"
  | s p d where
      "generate_content E (length (prompts_sent (trace w))) [sql_prompt u, u] = Inr s"
      "s \<noteq> ''INVALID QUERY''" "s \<noteq> ''NO RESULTS''"
      "sql_execute E (length (executed (trace w))) (datastore w) s = Inr ([], p, d)"
  | s rows p d m where
      "generate_content E (length (prompts_sent (trace w))) [sql_prompt u, u] = Inr s"
      "s \<noteq> ''INVALID QUERY''" "s \<noteq> ''NO RESULTS''"
      "sql_execute E (length (executed (trace w))) (datastore w) s = Inr (rows, p, d)" "rows \<noteq> []"
      "generate_content E (Suc (length (prompts_sent (trace w))))
         [insight_prompt u s (str_rows E rows)] = Inl m"
  | s rows p d insight where
      "generate_content E (length (prompts_sent (trace w))) [sql_prompt u, u] = Inr s"
      "s \<noteq> ''INVALID QUERY''" "s \<noteq> ''NO RESULTS''"
      "sql_execute E (length (executed (trace w))) (datastore w) s = Inr (rows, p, d)" "rows \<noteq> []"
      "generate_content E (Suc (length (prompts_sent (trace w))))
         [insight_prompt u s (str_rows E rows)] = Inr insight"
proof (cases "generate_content E (length (prompts_sent (trace w))) [sql_prompt u, u]")
  case (Inl m)
  then show ?thesis using that(1) by blast
next
  case (Inr s)
  note gen = this
  show ?thesis
  proof (cases "s = ''INVALID QUERY'' \<or> s = ''NO RESULTS''")
    case True
    then show ?thesis using gen that(2,3) by blast
  next
    case False
    then have ns: "s \<noteq> ''INVALID QUERY''" "s \<noteq> ''NO RESULTS''" by simp_all
    show ?thesis
    proof (cases "sql_execute E (length (executed (trace w))) (datastore w) s")
      case (Inl m)
      then show ?thesis using gen ns that(4) by blast
    next
      case (Inr a)
      then obtain rows p d where
        ex: "sql_execute E (length (executed (trace w))) (datastore w) s = Inr (rows, p, d)"
        by (cases a) auto
      show ?thesis
      proof (cases "rows = []")
        case True
        then show ?thesis using gen ns ex that(5) by blast
      next
        case False
        then show ?thesis
          using gen ns ex that(6,7)
          by (cases "generate_content E (Suc (length (prompts_sent (trace w))))
                [insight_prompt u s (str_rows E rows)]") blast+
      qed
    qed
  qed
qed

text \<open>Reading the unbound name would raise; no run of \<^verbatim>\<open>main\<close> does.\<close>

lemma main_store_unbound:
  "results \<noteq> [] \<Longrightarrow> fst (main_store results None w) = Inl (UnboundLocalError ''insight_response'')"
  by (simp add: main_store_def)

lemma main_never_unbound: "fst (main E user_input w) \<noteq> Inl (UnboundLocalError name)"
proof (cases user_input)
  case None
  then show ?thesis by (simp add: main_def)
next
  case (Some u)
  show ?thesis
  proof (cases "u = []")
    case True
    with Some show ?thesis by (simp add: main_def)
  next
    case False
    show ?thesis
    proof (cases rule: turn_scenarios [where E = E and w = w and u = u])
      case (generator_raises m)
      with main_generator_raises(1) [OF False generator_raises] Some show ?thesis by simp
    next
      case invalid
      with main_invalid(1) [OF False invalid] Some show ?thesis by simp
    next
      case no_results
      with main_no_results(1) [OF False no_results] Some show ?thesis by simp
    next
      case (executor_raises s m)
      with main_executor_raises(1) [OF False executor_raises] Some show ?thesis by simp
    next
      case (empty_results s p d)
      with main_empty_results(1) [OF False empty_results] Some show ?thesis by simp
    next
      case (insight_raises s rows p d m)
      with main_insight_raises(1) [OF False insight_raises] Some show ?thesis by simp
    next
      case (insight_ready s rows p d insight)
      with main_insight_ready(1) [OF False insight_ready] Some show ?thesis by simp
    qed
  qed
qed

section \<open>The claims\<close>

text \<open>
  Claim C1. When the text that \<^verbatim>\<open>get_sql_query\<close> returns is exactly \<^verbatim>\<open>INVALID QUERY\<close>, the
  run ends normally and its only status message is
  \<^verbatim>\<open>st.error("Invalid SQL query. Please try again.")\<close>; when it is exactly \<^verbatim>\<open>NO RESULTS\<close>, its
  only status message is \<^verbatim>\<open>st.warning("No results found for this query.")\<close>. In both cases the
  run makes no call on the SQLite driver: no connection is opened and the datastore is as
  before. The test is equality of the returned text with the literal.
\<close>

theorem sentinel_skips_executor:
  assumes "user_input \<noteq> []"
    and "generate_content E (length (prompts_sent (trace w))) [sql_prompt user_input, user_input]
           = Inr sql_query"
    and "sql_query = ''INVALID QUERY'' \<or> sql_query = ''NO RESULTS''"
  shows "fst (main E (Some user_input) w) = Inr () \<and>
         status_messages (effects_since w (snd (main E (Some user_input) w))) =
           [if sql_query = ''INVALID QUERY''
            then StError ''Invalid SQL query. Please try again.''
            else StWarning ''No results found for this query.''] \<and>
         driver_calls (effects_since w (snd (main E (Some user_input) w))) = [] \<and>
         connections (snd (main E (Some user_input) w)) = connections w \<and>
         datastore (snd (main E (Some user_input) w)) = datastore w"
proof (cases "sql_query = ''INVALID QUERY''")
  case True
  with assms(2) have g: "generate_content E (length (prompts_sent (trace w)))
      [sql_prompt user_input, user_input] = Inr ''INVALID QUERY''" by simp
  show ?thesis
    using True main_invalid [OF assms(1) g]
    by (simp add: effects_since_def turn_head_def)
next
  case False
  with assms(2,3) have g: "generate_content E (length (prompts_sent (trace w)))
      [sql_prompt user_input, user_input] = Inr ''NO RESULTS''" by simp
  show ?thesis
    using False main_no_results [OF assms(1) g]
    by (simp add: effects_since_def turn_head_def)
qed

theorem sentinel_skips_executor_witness:
  "fst (main demo_env (Some ''What is the capital of France?'') demo_world) = Inr () \<and>
   status_messages (effects_since demo_world
     (snd (main demo_env (Some ''What is the capital of France?'') demo_world))) =
     [StError ''Invalid SQL query. Please try again.''] \<and>
   driver_calls (effects_since demo_world
     (snd (main demo_env (Some ''What is the capital of France?'') demo_world))) = [] \<and>
   fst (main demo_env (Some ''Which rows will be logged tomorrow?'') demo_world) = Inr () \<and>
   status_messages (effects_since demo_world
     (snd (main demo_env (Some ''Which rows will be logged tomorrow?'') demo_world))) =
     [StWarning ''No results found for this query.''] \<and>
   driver_calls (effects_since demo_world
     (snd (main demo_env (Some ''Which rows will be logged tomorrow?'') demo_world))) = []"
proof -
  have a: "generate_content demo_env (length (prompts_sent (trace demo_world)))
      [sql_prompt ''What is the capital of France?'', ''What is the capital of France?'']
      = Inr ''INVALID QUERY''"
    by (simp add: demo_defs)
  have b: "generate_content demo_env (length (prompts_sent (trace demo_world)))
      [sql_prompt ''Which rows will be logged tomorrow?'', ''Which rows will be logged tomorrow?'']
      = Inr ''NO RESULTS''"
    by (simp add: demo_defs)
  show ?thesis
    using sentinel_skips_executor [OF _ a] sentinel_skips_executor [OF _ b]
    by simp
qed

text \<open>
  Claim C2, as stated, fails when \<^verbatim>\<open>cursor.execute\<close> raises. For the statement
  \<^verbatim>\<open>SELECT AVG(cost) FROM customer\<close>, which the engine rejects, \<^verbatim>\<open>get_sql_results\<close> raises the
  database error, the connection it opened is still open and no \<^verbatim>\<open>close\<close> call was made.
\<close>

theorem close_skipped_counterexample:
  "fst (get_sql_results demo_env ''SELECT AVG(cost) FROM customer'' demo_world) =
     Inl (DatabaseError ''no such column: cost'') \<and>
   connections (snd (get_sql_results demo_env ''SELECT AVG(cost) FROM customer'' demo_world)) =
     [Open] \<and>
   SqlClose \<notin> set (trace (snd (get_sql_results demo_env ''SELECT AVG(cost) FROM customer''
     demo_world)))"
proof -
  have x: "sql_execute demo_env (length (executed (trace demo_world))) (datastore demo_world) ''SELECT AVG(cost) FROM customer''
      = Inl ''no such column: cost''"
    by (simp add: demo_defs)
  show ?thesis
    using get_sql_results_raise(1,2,3) [OF x] by (simp add: demo_world_def)
qed

text \<open>
  Claim C2, amended. For every statement \<^verbatim>\<open>get_sql_results\<close> opens a connection on
  \<^verbatim>\<open>customer.db\<close>, takes a cursor and executes the statement. When execution succeeds, the
  loop copies every row in cursor order, the connection is closed, and the rows are returned:
  the driver calls are connect, cursor, execute, close, and the connection's final state is
  closed. When execution raises, the exception leaves the function at the \<^verbatim>\<open>execute\<close> line:
  the driver calls are connect, cursor, execute, and the connection is left open.
\<close>

theorem executor_connection_lifecycle:
  "(case sql_execute E (length (executed (trace w))) (datastore w) query of
      Inl m \<Rightarrow>
        fst (get_sql_results E query w) = Inl (DatabaseError m) \<and>
        effects_since w (snd (get_sql_results E query w)) =
          [SqlConnect ''customer.db'', SqlCursor, SqlExecute query] \<and>
        connections (snd (get_sql_results E query w)) = connections w @ [Open]
    | Inr (results, p, d) \<Rightarrow>
        fst (get_sql_results E query w) = Inr (append_rows [] results) \<and>
        append_rows [] results = results \<and>
        effects_since w (snd (get_sql_results E query w)) =
          [SqlConnect ''customer.db'', SqlCursor, SqlExecute query, SqlClose] \<and>
        connections (snd (get_sql_results E query w)) = connections w @ [Closed])"
proof (cases "sql_execute E (length (executed (trace w))) (datastore w) query")
  case (Inl m)
  with get_sql_results_raise(1,2,3) [OF Inl] show ?thesis
    by (simp add: effects_since_def)
next
  case (Inr a)
  then obtain results p d where
    x: "sql_execute E (length (executed (trace w))) (datastore w) query = Inr (results, p, d)"
    by (cases a) auto
  with get_sql_results_return(1,2,3) [OF x] show ?thesis
    by (simp add: effects_since_def append_rows_eq)
qed

theorem executor_connection_lifecycle_witness:
  "fst (get_sql_results demo_env ''SELECT platform, ROAS FROM customer ORDER BY ROAS DESC''
     demo_world) = Inr [[SText ''Meta'', SFloat 4.2], [SText ''Google'', SFloat 3.1]] \<and>
   effects_since demo_world (snd (get_sql_results demo_env
     ''SELECT platform, ROAS FROM customer ORDER BY ROAS DESC'' demo_world)) =
     [SqlConnect ''customer.db'', SqlCursor,
      SqlExecute ''SELECT platform, ROAS FROM customer ORDER BY ROAS DESC'', SqlClose] \<and>
   connections (snd (get_sql_results demo_env
     ''SELECT platform, ROAS FROM customer ORDER BY ROAS DESC'' demo_world)) = [Closed]"
  using executor_connection_lifecycle [where E = demo_env and w = demo_world
    and query = "''SELECT platform, ROAS FROM customer ORDER BY ROAS DESC''"]
  by (simp add: demo_defs)

text \<open>
  Claim C3, as stated, fails on its second part. For the question
  \<^verbatim>\<open>What is the average cost?\<close> the generated statement names a column the table does not
  have; the run ends with the driver's own error, raised out of \<^verbatim>\<open>main\<close>, and \<^verbatim>\<open>main\<close> has
  emitted no message of class error, warning or success (so not exactly one).
\<close>

theorem database_error_counterexample:
  "fst (main demo_env (Some ''What is the average cost?'') demo_world) =
     Inl (DatabaseError ''no such column: cost'') \<and>
   status_messages (effects_since demo_world
     (snd (main demo_env (Some ''What is the average cost?'') demo_world))) = [] \<and>
   length (status_messages (effects_since demo_world
     (snd (main demo_env (Some ''What is the average cost?'') demo_world)))) \<noteq> 1"
proof -
  have n: "''What is the average cost?'' \<noteq> []" by simp
  have g: "generate_content demo_env (length (prompts_sent (trace demo_world)))
      [sql_prompt ''What is the average cost?'', ''What is the average cost?'']
      = Inr ''SELECT AVG(cost) FROM customer''"
    by (simp add: demo_defs)
  have x: "sql_execute demo_env (length (executed (trace demo_world))) (datastore demo_world) ''SELECT AVG(cost) FROM customer''
      = Inl ''no such column: cost''"
    by (simp add: demo_defs)
  show ?thesis
    using main_executor_raises(1,2) [OF n g _ _ x]
    by (simp add: effects_since_def turn_head_def query_shown_def)
qed

text \<open>
  Claim C3, amended. For every run with a non-empty input, the result of \<^verbatim>\<open>main\<close>, the status
  messages it emits and the prompts it sends are determined as follows. An exception of a
  collaborator is not caught anywhere in \<^verbatim>\<open>main\<close>: when the driver raises, \<^verbatim>\<open>main\<close> raises the
  same database error with the driver's message, emits no status message and sends no insight
  prompt; likewise when a generation call raises. In every run that ends with an exception
  the history gains the user's message and no assistant message. Each of the four branches that end
  normally emits exactly one status message: \<^verbatim>\<open>st.error\<close> for \<^verbatim>\<open>INVALID QUERY\<close>,
  \<^verbatim>\<open>st.warning\<close> for \<^verbatim>\<open>NO RESULTS\<close>, \<^verbatim>\<open>st.warning\<close> for an empty result, \<^verbatim>\<open>st.success\<close> with the
  insight otherwise. So a run emits exactly one status message if and only if it ends
  normally.
\<close>

theorem turn_result_and_status:
  assumes "user_input \<noteq> []"
  shows "(fst (main E (Some user_input) w),
          status_messages (effects_since w (snd (main E (Some user_input) w))),
          prompts_sent (effects_since w (snd (main E (Some user_input) w)))) =
           (case generate_content E (length (prompts_sent (trace w)))
                   [sql_prompt user_input, user_input] of
              Inl m \<Rightarrow> (Inl (GenerationError m), [], [[sql_prompt user_input, user_input]])
            | Inr sql_query \<Rightarrow>
                if sql_query = ''INVALID QUERY''
                then (Inr (), [StError ''Invalid SQL query. Please try again.''],
                      [[sql_prompt user_input, user_input]])
                else if sql_query = ''NO RESULTS''
                then (Inr (), [StWarning ''No results found for this query.''],
                      [[sql_prompt user_input, user_input]])
                else (case sql_execute E (length (executed (trace w))) (datastore w) sql_query of
                        Inl m \<Rightarrow> (Inl (DatabaseError m), [], [[sql_prompt user_input, user_input]])
                      | Inr (results, p, d) \<Rightarrow>
                          if results = []
                          then (Inr (), [StWarning ''No data returned for this query.''],
                                [[sql_prompt user_input, user_input]])
                          else (case generate_content E (Suc (length (prompts_sent (trace w))))
                                  [insight_prompt user_input sql_query (str_rows E results)] of
                                  Inl m \<Rightarrow>
                                    (Inl (GenerationError m), [],
                                     [[sql_prompt user_input, user_input],
                                      [insight_prompt user_input sql_query (str_rows E results)]])
                                | Inr insight \<Rightarrow>
                                    (Inr (), [StSuccess insight],
                                     [[sql_prompt user_input, user_input],
                                      [insight_prompt user_input sql_query (str_rows E results)]])))) \<and>
         (fst (main E (Some user_input) w) = Inr ()) =
           (length (status_messages (effects_since w (snd (main E (Some user_input) w)))) = 1) \<and>
         (fst (main E (Some user_input) w) \<noteq> Inr () \<longrightarrow>
            messages (snd (main E (Some user_input) w)) =
              Some (history_of w @ [\<lparr>role = ''user'', content = user_input\<rparr>]))"
proof (cases rule: turn_scenarios [where E = E and w = w and u = user_input])
  case (generator_raises m)
  with main_generator_raises(1,2,3) [OF assms generator_raises] show ?thesis
    by (simp add: effects_since_def turn_head_def)
next
  case invalid
  with main_invalid(1,2,3) [OF assms invalid] show ?thesis
    by (simp add: effects_since_def turn_head_def)
next
  case no_results
  with main_no_results(1,2,3) [OF assms no_results] show ?thesis
    by (simp add: effects_since_def turn_head_def)
next
  case (executor_raises s m)
  with main_executor_raises(1,2,3) [OF assms executor_raises] show ?thesis
    by (simp add: effects_since_def turn_head_def query_shown_def)
next
  case (empty_results s p d)
  with main_empty_results(1,2,3) [OF assms empty_results] show ?thesis
    by (simp add: effects_since_def turn_head_def query_shown_def)
next
  case (insight_raises s rows p d m)
  with main_insight_raises(1,2,3) [OF assms insight_raises] show ?thesis
    by (simp add: effects_since_def turn_head_def query_shown_def)
next
  case (insight_ready s rows p d insight)
  with main_insight_ready(1,2,3) [OF assms insight_ready] show ?thesis
    by (simp add: effects_since_def turn_head_def query_shown_def)
qed

theorem turn_result_and_status_witness:
  "fst (main demo_env (Some ''What is the average cost?'') demo_world) =
     Inl (DatabaseError ''no such column: cost'') \<and>
   status_messages (effects_since demo_world
     (snd (main demo_env (Some ''What is the average cost?'') demo_world))) = [] \<and>
   prompts_sent (effects_since demo_world
     (snd (main demo_env (Some ''What is the average cost?'') demo_world))) =
     [[sql_prompt ''What is the average cost?'', ''What is the average cost?'']] \<and>
   fst (main demo_env (Some ''Which platform had the highest ROAS?'') demo_world) = Inr () \<and>
   status_messages (effects_since demo_world
     (snd (main demo_env (Some ''Which platform had the highest ROAS?'') demo_world))) =
     [StSuccess ''Meta returns the most per unit of spend; consider scaling it.''] \<and>
   messages (snd (main demo_env (Some ''What is the average cost?'') demo_world)) =
     Some [\<lparr>role = ''user'', content = ''What is the average cost?''\<rparr>]"
  using turn_result_and_status [of "''What is the average cost?''" demo_env demo_world]
    turn_result_and_status [of "''Which platform had the highest ROAS?''" demo_env demo_world]
  by (simp add: demo_defs history_of_def)

text \<open>
  Claim C4. When the text that \<^verbatim>\<open>get_sql_query\<close> returns equals neither sentinel, it is the
  one statement that the run executes, character for character: the statements passed to
  \<^verbatim>\<open>cursor.execute\<close> during the run are exactly that text, and the first driver calls are
  connect, cursor and the execution of that text.
\<close>

theorem real_sql_passed_unmodified:
  assumes "user_input \<noteq> []"
    and "generate_content E (length (prompts_sent (trace w))) [sql_prompt user_input, user_input]
           = Inr sql_query"
    and "sql_query \<noteq> ''INVALID QUERY''" and "sql_query \<noteq> ''NO RESULTS''"
  shows "executed (effects_since w (snd (main E (Some user_input) w))) = [sql_query] \<and>
         take 3 (driver_calls (effects_since w (snd (main E (Some user_input) w)))) =
           [SqlConnect ''customer.db'', SqlCursor, SqlExecute sql_query]"
proof (cases rule: turn_scenarios [where E = E and w = w and u = user_input])
  case (executor_raises s m)
  with assms(2) have "s = sql_query" by simp
  with executor_raises main_executor_raises(2) [OF assms(1) executor_raises] show ?thesis
    by (simp add: effects_since_def turn_head_def query_shown_def)
next
  case (empty_results s p d)
  with assms(2) have "s = sql_query" by simp
  with empty_results main_empty_results(2) [OF assms(1) empty_results] show ?thesis
    by (simp add: effects_since_def turn_head_def query_shown_def)
next
  case (insight_raises s rows p d m)
  with assms(2) have "s = sql_query" by simp
  with insight_raises main_insight_raises(2) [OF assms(1) insight_raises] show ?thesis
    by (simp add: effects_since_def turn_head_def query_shown_def)
next
  case (insight_ready s rows p d insight)
  with assms(2) have "s = sql_query" by simp
  with insight_ready main_insight_ready(2) [OF assms(1) insight_ready] show ?thesis
    by (simp add: effects_since_def turn_head_def query_shown_def)
qed (use assms in simp_all)

theorem real_sql_passed_unmodified_witness:
  "executed (effects_since demo_world
     (snd (main demo_env (Some ''Is this a valid question?'') demo_world))) = [''INVALID QUERY.''] \<and>
   take 3 (driver_calls (effects_since demo_world
     (snd (main demo_env (Some ''Is this a valid question?'') demo_world)))) =
     [SqlConnect ''customer.db'', SqlCursor, SqlExecute ''INVALID QUERY.'']"
proof -
  have g: "generate_content demo_env (length (prompts_sent (trace demo_world)))
      [sql_prompt ''Is this a valid question?'', ''Is this a valid question?'']
      = Inr ''INVALID QUERY.''"
    by (simp add: demo_defs)
  show ?thesis
    using real_sql_passed_unmodified [OF _ g] by simp
qed

text \<open>
  Claim C5. When the generated text is not a sentinel and executing it yields no row, the run
  ends normally, its only status message is
  \<^verbatim>\<open>st.warning("No data returned for this query.")\<close>, and the only prompt sent to the model is
  the one of \<^verbatim>\<open>get_sql_query\<close>: \<^verbatim>\<open>generate_insights\<close> is not called. The branch depends on the
  rows the driver returned and on nothing the generator said.
\<close>

theorem empty_results_skip_insight:
  assumes "user_input \<noteq> []"
    and "generate_content E (length (prompts_sent (trace w))) [sql_prompt user_input, user_input]
           = Inr sql_query"
    and "sql_query \<noteq> ''INVALID QUERY''" and "sql_query \<noteq> ''NO RESULTS''"
    and "sql_execute E (length (executed (trace w))) (datastore w) sql_query = Inr ([], p, d)"
  shows "fst (main E (Some user_input) w) = Inr () \<and>
         status_messages (effects_since w (snd (main E (Some user_input) w))) =
           [StWarning ''No data returned for this query.''] \<and>
         prompts_sent (effects_since w (snd (main E (Some user_input) w))) =
           [[sql_prompt user_input, user_input]]"
  using main_empty_results(1,2) [OF assms]
  by (simp add: effects_since_def turn_head_def query_shown_def)

theorem empty_results_skip_insight_witness:
  "fst (main demo_env (Some ''What happened at a negative hour?'') demo_world) = Inr () \<and>
   status_messages (effects_since demo_world
     (snd (main demo_env (Some ''What happened at a negative hour?'') demo_world))) =
     [StWarning ''No data returned for this query.''] \<and>
   prompts_sent (effects_since demo_world
     (snd (main demo_env (Some ''What happened at a negative hour?'') demo_world))) =
     [[sql_prompt ''What happened at a negative hour?'', ''What happened at a negative hour?'']]"
proof -
  have g: "generate_content demo_env (length (prompts_sent (trace demo_world)))
      [sql_prompt ''What happened at a negative hour?'', ''What happened at a negative hour?'']
      = Inr ''SELECT * FROM customer WHERE hour < 0''"
    by (simp add: demo_defs)
  have x: "sql_execute demo_env (length (executed (trace demo_world))) (datastore demo_world) ''SELECT * FROM customer WHERE hour < 0''
      = Inr ([], demo_rows, demo_rows)"
    by (simp add: demo_defs)
  show ?thesis
    using empty_results_skip_insight [OF _ g _ _ x] by simp
qed

text \<open>
  Claim C6. When the generated text is not a sentinel and executing it yields at least one
  row, the run sends exactly one insight prompt, after the prompt of \<^verbatim>\<open>get_sql_query\<close>. It is
  built by \<^verbatim>\<open>generate_insights\<close> from the user's input, the generated text and all the rows
  the driver returned; that generated text is the one statement executed, and those rows are
  the ones shown by \<^verbatim>\<open>st.dataframe\<close>.
\<close>

theorem insight_generator_called_once:
  assumes "user_input \<noteq> []"
    and "generate_content E (length (prompts_sent (trace w))) [sql_prompt user_input, user_input]
           = Inr sql_query"
    and "sql_query \<noteq> ''INVALID QUERY''" and "sql_query \<noteq> ''NO RESULTS''"
    and "sql_execute E (length (executed (trace w))) (datastore w) sql_query = Inr (results, p, d)" and "results \<noteq> []"
  shows "prompts_sent (effects_since w (snd (main E (Some user_input) w))) =
           [[sql_prompt user_input, user_input],
            [insight_prompt user_input sql_query (str_rows E results)]] \<and>
         executed (effects_since w (snd (main E (Some user_input) w))) = [sql_query] \<and>
         frames_shown (effects_since w (snd (main E (Some user_input) w))) = [results]"
proof (cases "generate_content E (Suc (length (prompts_sent (trace w))))
                [insight_prompt user_input sql_query (str_rows E results)]")
  case (Inl m)
  show ?thesis
    using main_insight_raises(2) [OF assms Inl]
    by (simp add: effects_since_def turn_head_def query_shown_def)
next
  case (Inr insight)
  show ?thesis
    using main_insight_ready(2) [OF assms Inr]
    by (simp add: effects_since_def turn_head_def query_shown_def)
qed

theorem insight_generator_called_once_witness:
  "prompts_sent (effects_since demo_world
     (snd (main demo_env (Some ''Which platform had the highest ROAS?'') demo_world))) =
     [[sql_prompt ''Which platform had the highest ROAS?'', ''Which platform had the highest ROAS?''],
      [insight_prompt ''Which platform had the highest ROAS?''
         ''SELECT platform, ROAS FROM customer ORDER BY ROAS DESC''
         ''[('Meta', 4.2), ('Google', 3.1)]'']] \<and>
   executed (effects_since demo_world
     (snd (main demo_env (Some ''Which platform had the highest ROAS?'') demo_world))) =
     [''SELECT platform, ROAS FROM customer ORDER BY ROAS DESC''] \<and>
   frames_shown (effects_since demo_world
     (snd (main demo_env (Some ''Which platform had the highest ROAS?'') demo_world))) =
     [[[SText ''Meta'', SFloat 4.2], [SText ''Google'', SFloat 3.1]]]"
proof -
  have g: "generate_content demo_env (length (prompts_sent (trace demo_world)))
      [sql_prompt ''Which platform had the highest ROAS?'', ''Which platform had the highest ROAS?'']
      = Inr ''SELECT platform, ROAS FROM customer ORDER BY ROAS DESC''"
    by (simp add: demo_defs)
  have x: "sql_execute demo_env (length (executed (trace demo_world))) (datastore demo_world)
      ''SELECT platform, ROAS FROM customer ORDER BY ROAS DESC'' = Inr (demo_rows, demo_rows, demo_rows)"
    by (simp add: demo_defs)
  show ?thesis
    using insight_generator_called_once [OF _ g _ _ x]
    by (simp add: demo_env_def demo_rows_def)
qed

text \<open>
  Claim C7, as stated, fails for a statement whose answer the driver does not derive from
  the text and the table alone. For \<^verbatim>\<open>SELECT random()\<close> two successive calls of
  \<^verbatim>\<open>get_sql_results\<close>, the table unchanged in between, return rows that differ also as
  multisets.
\<close>

theorem repeat_differs_counterexample:
  "fst (get_sql_results demo_env ''SELECT random()'' demo_world) = Inr [[SInt 12345]] \<and>
   datastore (snd (get_sql_results demo_env ''SELECT random()'' demo_world)) =
     datastore demo_world \<and>
   fst (get_sql_results demo_env ''SELECT random()''
     (snd (get_sql_results demo_env ''SELECT random()'' demo_world))) = Inr [[SInt 1103527590]] \<and>
   mset [[SInt 12345]] \<noteq> mset [[SInt 1103527590]]"
proof -
  have x: "sql_execute demo_env (length (executed (trace demo_world))) (datastore demo_world)
      ''SELECT random()'' = Inr ([[SInt 12345]], demo_rows, demo_rows)"
    by (simp add: demo_defs)
  have t: "trace (snd (get_sql_results demo_env ''SELECT random()'' demo_world)) =
      [SqlConnect ''customer.db'', SqlCursor, SqlExecute ''SELECT random()'', SqlClose]"
    using get_sql_results_return(2) [OF x] by (simp add: demo_world_def)
  have d: "datastore (snd (get_sql_results demo_env ''SELECT random()'' demo_world)) = demo_rows"
    using get_sql_results_return(4) [OF x] .
  have y: "sql_execute demo_env
      (length (executed (trace (snd (get_sql_results demo_env ''SELECT random()'' demo_world)))))
      (datastore (snd (get_sql_results demo_env ''SELECT random()'' demo_world)))
      ''SELECT random()'' = Inr ([[SInt 1103527590]], demo_rows, demo_rows)"
    unfolding t d by (simp add: demo_env_def demo_execute_def)
  show ?thesis
    using get_sql_results_return(1) [OF x] get_sql_results_return(1) [OF y] d
    by (simp add: demo_world_def)
qed

text \<open>
  Claim C7, amended. If a call of \<^verbatim>\<open>get_sql_results\<close> returns rows and leaves the datastore
  as it was, and the engine answers the statement at its next execution as it did at this
  one, then a second call with the same statement, made in the world the first call left,
  returns the same rows in the same order, hence the same multiset. The function keeps
  nothing between calls: the connections opened before and the longer trace do not
  influence the result.
\<close>

theorem executor_repeatable:
  assumes "fst (get_sql_results E query w) = Inr rows1"
    and "datastore (snd (get_sql_results E query w)) = datastore w"
    and "sql_execute E (Suc (length (executed (trace w)))) (datastore w) query =
         sql_execute E (length (executed (trace w))) (datastore w) query"
  shows "\<exists>rows2. fst (get_sql_results E query (snd (get_sql_results E query w))) = Inr rows2 \<and>
           rows2 = rows1 \<and> mset rows2 = mset rows1"
proof (cases "sql_execute E (length (executed (trace w))) (datastore w) query")
  case (Inl m)
  from get_sql_results_raise(1) [OF Inl] assms(1) show ?thesis by simp
next
  case (Inr a)
  then obtain results p d where
    x: "sql_execute E (length (executed (trace w))) (datastore w) query = Inr (results, p, d)"
    by (cases a) auto
  from get_sql_results_return(1) [OF x] assms(1) have r: "results = rows1" by simp
  have n: "length (executed (trace (snd (get_sql_results E query w)))) =
      Suc (length (executed (trace w)))"
    using get_sql_results_return(2) [OF x] by simp
  from x r assms(2,3) n
  have "sql_execute E (length (executed (trace (snd (get_sql_results E query w)))))
      (datastore (snd (get_sql_results E query w))) query = Inr (rows1, p, d)"
    by simp
  from get_sql_results_return(1) [OF this] show ?thesis by simp
qed

theorem executor_repeatable_witness:
  "\<exists>rows2. fst (get_sql_results demo_env ''SELECT platform, ROAS FROM customer ORDER BY ROAS DESC''
       (snd (get_sql_results demo_env ''SELECT platform, ROAS FROM customer ORDER BY ROAS DESC''
          demo_world))) = Inr rows2 \<and>
     rows2 = [[SText ''Meta'', SFloat 4.2], [SText ''Google'', SFloat 3.1]] \<and>
     mset rows2 = mset [[SText ''Meta'', SFloat 4.2], [SText ''Google'', SFloat 3.1]]"
proof -
  have x: "sql_execute demo_env (length (executed (trace demo_world))) (datastore demo_world)
      ''SELECT platform, ROAS FROM customer ORDER BY ROAS DESC''
      = Inr (demo_rows, demo_rows, demo_rows)"
    by (simp add: demo_defs)
  have a: "fst (get_sql_results demo_env ''SELECT platform, ROAS FROM customer ORDER BY ROAS DESC''
      demo_world) = Inr [[SText ''Meta'', SFloat 4.2], [SText ''Google'', SFloat 3.1]]"
    using get_sql_results_return(1) [OF x] by (simp add: demo_rows_def)
  have b: "datastore (snd (get_sql_results demo_env
      ''SELECT platform, ROAS FROM customer ORDER BY ROAS DESC'' demo_world)) = datastore demo_world"
    using get_sql_results_return(4) [OF x] by (simp add: demo_world_def)
  have c: "sql_execute demo_env (Suc (length (executed (trace demo_world)))) (datastore demo_world)
      ''SELECT platform, ROAS FROM customer ORDER BY ROAS DESC'' =
    sql_execute demo_env (length (executed (trace demo_world))) (datastore demo_world)
      ''SELECT platform, ROAS FROM customer ORDER BY ROAS DESC''"
    by (simp add: demo_env_def demo_execute_def)
  show ?thesis
    using executor_repeatable [OF a b c] .
qed



text \<open>
  Claim C9. After a run with a non-empty input the history is the earlier history, then the
  user's message, then at most one assistant message. The user's message is there whatever
  happens later, also when the first generation call raises. The assistant message is the
  insight when rows came back and the insight was generated, the fixed text
  \<^verbatim>\<open>No data to generate insights.\<close> when no row came back, and absent on both sentinel
  branches and whenever a collaborator raised. A run that executed no statement appends no
  assistant message, so two user messages can follow each other.
\<close>

theorem history_after_turn:
  assumes "user_input \<noteq> []"
  shows "messages (snd (main E (Some user_input) w)) =
           Some (history_of w @ \<lparr>role = ''user'', content = user_input\<rparr> #
             (case generate_content E (length (prompts_sent (trace w)))
                     [sql_prompt user_input, user_input] of
                Inl m \<Rightarrow> []
              | Inr sql_query \<Rightarrow>
                  if sql_query = ''INVALID QUERY'' \<or> sql_query = ''NO RESULTS'' then []
                  else (case sql_execute E (length (executed (trace w))) (datastore w) sql_query of
                          Inl m \<Rightarrow> []
                        | Inr (results, p, d) \<Rightarrow>
                            if results = []
                            then [\<lparr>role = ''assistant'',
                                   content = ''No data to generate insights.''\<rparr>]
                            else (case generate_content E (Suc (length (prompts_sent (trace w))))
                                    [insight_prompt user_input sql_query (str_rows E results)] of
                                    Inl m \<Rightarrow> []
                                  | Inr insight \<Rightarrow>
                                      [\<lparr>role = ''assistant'', content = insight\<rparr>])))) \<and>
         (executed (effects_since w (snd (main E (Some user_input) w))) = [] \<longrightarrow>
            messages (snd (main E (Some user_input) w)) =
              Some (history_of w @ [\<lparr>role = ''user'', content = user_input\<rparr>]))"
proof (cases rule: turn_scenarios [where E = E and w = w and u = user_input])
  case (generator_raises m)
  with main_generator_raises(2,3) [OF assms generator_raises] show ?thesis
    by (simp add: effects_since_def)
next
  case invalid
  with main_invalid(2,3) [OF assms invalid] show ?thesis
    by (simp add: effects_since_def)
next
  case no_results
  with main_no_results(2,3) [OF assms no_results] show ?thesis
    by (simp add: effects_since_def)
next
  case (executor_raises s m)
  with main_executor_raises(2,3) [OF assms executor_raises] show ?thesis
    by (simp add: effects_since_def turn_head_def query_shown_def)
next
  case (empty_results s p d)
  with main_empty_results(2,3) [OF assms empty_results] show ?thesis
    by (simp add: effects_since_def turn_head_def query_shown_def)
next
  case (insight_raises s rows p d m)
  with main_insight_raises(2,3) [OF assms insight_raises] show ?thesis
    by (simp add: effects_since_def turn_head_def query_shown_def)
next
  case (insight_ready s rows p d insight)
  with main_insight_ready(2,3) [OF assms insight_ready] show ?thesis
    by (simp add: effects_since_def turn_head_def query_shown_def)
qed

theorem history_after_turn_witness:
  "messages (snd (main demo_env (Some ''Which rows will be logged tomorrow?'')
      (snd (main demo_env (Some ''What is the capital of France?'') demo_world)))) =
     Some [\<lparr>role = ''user'', content = ''What is the capital of France?''\<rparr>,
           \<lparr>role = ''user'', content = ''Which rows will be logged tomorrow?''\<rparr>] \<and>
   messages (snd (main demo_env (Some ''What happened at a negative hour?'') demo_world)) =
     Some [\<lparr>role = ''user'', content = ''What happened at a negative hour?''\<rparr>,
           \<lparr>role = ''assistant'', content = ''No data to generate insights.''\<rparr>] \<and>
   messages (snd (main demo_env (Some ''Which platform had the highest ROAS?'') demo_world)) =
     Some [\<lparr>role = ''user'', content = ''Which platform had the highest ROAS?''\<rparr>,
           \<lparr>role = ''assistant'',
            content = ''Meta returns the most per unit of spend; consider scaling it.''\<rparr>]"
proof -
  have a: "messages (snd (main demo_env (Some ''What is the capital of France?'') demo_world)) =
      Some [\<lparr>role = ''user'', content = ''What is the capital of France?''\<rparr>]"
    using history_after_turn [of "''What is the capital of France?''" demo_env demo_world]
    by (simp add: demo_defs history_of_def)
  have b: "messages (snd (main demo_env (Some ''Which rows will be logged tomorrow?'')
      (snd (main demo_env (Some ''What is the capital of France?'') demo_world)))) =
     Some [\<lparr>role = ''user'', content = ''What is the capital of France?''\<rparr>,
           \<lparr>role = ''user'', content = ''Which rows will be logged tomorrow?''\<rparr>]"
    using a history_after_turn [of "''Which rows will be logged tomorrow?''" demo_env
      "snd (main demo_env (Some ''What is the capital of France?'') demo_world)"]
    by (simp add: demo_env_def demo_generate_def history_of_def)
  have c: "messages (snd (main demo_env (Some ''What happened at a negative hour?'') demo_world)) =
     Some [\<lparr>role = ''user'', content = ''What happened at a negative hour?''\<rparr>,
           \<lparr>role = ''assistant'', content = ''No data to generate insights.''\<rparr>]"
    using history_after_turn [of "''What happened at a negative hour?''" demo_env demo_world]
    by (simp add: demo_defs history_of_def)
  have d: "messages (snd (main demo_env (Some ''Which platform had the highest ROAS?'') demo_world)) =
     Some [\<lparr>role = ''user'', content = ''Which platform had the highest ROAS?''\<rparr>,
           \<lparr>role = ''assistant'',
            content = ''Meta returns the most per unit of spend; consider scaling it.''\<rparr>]"
    using history_after_turn [of "''Which platform had the highest ROAS?''" demo_env demo_world]
    by (simp add: demo_defs history_of_def)
  from b c d show ?thesis by blast
qed

text \<open>
  Claim C10. When no row comes back, the run ends normally and appends
  \<^verbatim>\<open>No data to generate insights.\<close>: line 171 evaluates \<^verbatim>\<open>results\<close> first and then only
  the else-arm, so the name \<^verbatim>\<open>insight_response\<close>, unbound on this branch, is never read and
  no \<^verbatim>\<open>UnboundLocalError\<close> arises.
\<close>

theorem empty_results_no_unbound_name:
  assumes "user_input \<noteq> []"
    and "generate_content E (length (prompts_sent (trace w))) [sql_prompt user_input, user_input]
           = Inr sql_query"
    and "sql_query \<noteq> ''INVALID QUERY''" and "sql_query \<noteq> ''NO RESULTS''"
    and "sql_execute E (length (executed (trace w))) (datastore w) sql_query = Inr ([], p, d)"
  shows "fst (main E (Some user_input) w) = Inr () \<and>
         fst (main E (Some user_input) w) \<noteq> Inl (UnboundLocalError ''insight_response'') \<and>
         messages (snd (main E (Some user_input) w)) =
           Some (history_of w @
             [\<lparr>role = ''user'', content = user_input\<rparr>,
              \<lparr>role = ''assistant'', content = ''No data to generate insights.''\<rparr>]) \<and>
         fst (main_store [] None v) \<noteq> Inl (UnboundLocalError name)"
  using main_empty_results(1,3) [OF assms]
  by (simp add: main_store_def append_message_def split: option.split)

theorem empty_results_no_unbound_name_witness:
  "fst (main demo_env (Some ''What happened at a negative hour?'') demo_world) = Inr () \<and>
   fst (main demo_env (Some ''What happened at a negative hour?'') demo_world)
     \<noteq> Inl (UnboundLocalError ''insight_response'') \<and>
   fst (main_store [] None demo_world) \<noteq> Inl (UnboundLocalError ''insight_response'')"
proof -
  have g: "generate_content demo_env (length (prompts_sent (trace demo_world)))
      [sql_prompt ''What happened at a negative hour?'', ''What happened at a negative hour?'']
      = Inr ''SELECT * FROM customer WHERE hour < 0''"
    by (simp add: demo_defs)
  have x: "sql_execute demo_env (length (executed (trace demo_world))) (datastore demo_world) ''SELECT * FROM customer WHERE hour < 0''
      = Inr ([], demo_rows, demo_rows)"
    by (simp add: demo_defs)
  show ?thesis
    using empty_results_no_unbound_name [OF _ g _ _ x, where v = demo_world
        and name = "''insight_response''"]
    by simp
qed

end
